theory Spec2Isabelle
  imports Main
begin

section \<open>JavaScript values\<close>

text \<open>
  The settings object, the partial objects handed to \<open>update\<close> and the objects the
  backend returns are plain JavaScript objects holding JSON data. An object is a finite
  map from property names to values; a property that is absent reads as \<open>undefined\<close>.
  Numbers are restricted to integers (the only numbers of the settings are
  \<open>settingsVersion: 1\<close> and \<open>autoDeleteLogsAfterDays: 90\<close>).
\<close>

datatype json =
    JNull
  | JBool bool
  | JNum int
  | JStr string
  | JArr "json list"
  | JObj "(string \<times> json) list"

type_synonym js_object = "string \<rightharpoonup> json"

text \<open>JavaScript's ToBoolean on these values, as used by \<open>if (v)\<close>, \<open>!!v\<close> and \<open>v || w\<close>.\<close>

fun truthy :: "json \<Rightarrow> bool" where
  "truthy JNull = False"
| "truthy (JBool b) = b"
| "truthy (JNum n) = (n \<noteq> 0)"
| "truthy (JStr s) = (s \<noteq> [])"
| "truthy (JArr xs) = True"
| "truthy (JObj kvs) = True"

text \<open>\<open>!!obj.k\<close>: an absent property is \<open>undefined\<close>, which is falsy.\<close>

definition prop_truthy :: "js_object \<Rightarrow> string \<Rightarrow> bool" where
  "prop_truthy obj k = (case obj k of None \<Rightarrow> False | Some v \<Rightarrow> truthy v)"

text \<open>
  Object spread \<open>{ ...a, ...b }\<close>: every own property of \<open>a\<close>, then every own
  property of \<open>b\<close>, a later property replacing an earlier one of the same name.
\<close>

definition spread :: "js_object \<Rightarrow> js_object \<Rightarrow> js_object" where
  "spread a b = (\<lambda>k. case b k of Some v \<Rightarrow> Some v | None \<Rightarrow> a k)"

text \<open>A rejected promise carries a reason; only its message is kept.\<close>

datatype rejection = Rejected string

section \<open>Settings (App.tsx)\<close>

text \<open>
  The component \<open>App\<close> is in the repository twice: src/app/src/App.tsx and
  src/unnamed/part_002. The two agree on the settings, the settings store and the
  capture controller, except that part_002 also keeps a transcript (\<open>interimText\<close>,
  \<open>finalText\<close>) and an interval timer; the model follows part_002. They differ in the
  component \<open>KeysPanel\<close>, which is modelled in both versions.

  The constant \<open>DEFAULTS\<close>, lines 47 to 81 of both files.
\<close>

definition DEFAULTS :: js_object where
  "DEFAULTS = map_of [
     (''settingsVersion'', JNum 1),
     (''securityMasterMode'', JStr ''standard''),
     (''enableGemini'', JBool True),
     (''noSave'', JBool True),
     (''encryptTempFiles'', JBool True),
     (''autoClearClipboard'', JBool True),
     (''clearAllOnExit'', JBool True),
     (''maskStrength'', JStr ''standard''),
     (''maskPhone'', JBool True),
     (''maskEmail'', JBool True),
     (''maskAddress'', JBool True),
     (''maskNumbers'', JBool True),
     (''maskNames'', JBool False),
     (''whitelistWords'', JArr []),
     (''sendTextOnlyToGemini'', JBool True),
     (''disableDataTraining'', JBool True),
     (''regionPreference'', JStr ''nearest''),
     (''useBYOKey'', JBool True),
     (''saveEmailDisplayName'', JBool False),
     (''shortLivedSession'', JBool True),
     (''clearTokensOnLogout'', JBool True),
     (''enableErrorLogs'', JBool False),
     (''enableUsageStats'', JBool False),
     (''autoDeleteLogsAfterDays'', JNum 90),
     (''enableDLPScan'', JBool True),
     (''dlpAction'', JStr ''mask''),
     (''offlineMode'', JBool False),
     (''naturalizeExpressions'', JBool True),
     (''autoPunctuation'', JBool True),
     (''unifyForeignWords'', JBool True),
     (''preserveOriginalProperNouns'', JBool True),
     (''noSummaryOrEmbellishment'', JBool True),
     (''customReplaceRules'', JArr [])]"

section \<open>The App component: state and external calls\<close>

datatype ptt_state = Idle | Recording | Processing | Error

text \<open>
  Audio data is a list of bytes; \<open>new Blob(chunks)\<close> concatenates its parts and
  \<open>blob.size\<close> is the length.
\<close>

type_synonym blob = "nat list"

text \<open>
  Every call that leaves the component is recorded, in order: the backend commands sent
  through \<open>invoke\<close> with their payload, and the media calls of the browser.
\<close>

datatype call =
    SettingsGet
  | SettingsUpdate js_object
  | SttTranscribeOnce js_object "string option"
  | NlpGeminiFormat js_object string
  | ClipboardSet string
  | InputPaste
  | ClipboardClear
  | GetUserMedia
  | NewMediaRecorder nat
  | SetInterval
  | ClearInterval
  | RecorderStart
  | RecorderStop
  | TracksStop nat
  | ReadAsDataURL blob

text \<open>
  A \<open>MediaStream\<close> is a handle with its tracks either live or stopped. A
  \<open>MediaRecorder\<close> is bound to a stream; \<open>mr_settings\<close> and \<open>mr_interimTimer\<close>
  are what the closure \<open>mr.onstop\<close> captured when \<open>startRecording\<close> built it: the
  \<open>settings\<close> of that render and the interval timer. \<open>mr_stop_queued\<close> says that
  \<open>stop()\<close> was called and the \<open>stop\<close> event has not been dispatched yet.
\<close>

record media_stream =
  stream_id :: nat
  tracks_live :: bool

record media_recorder =
  mr_stream :: nat
  mr_recording :: bool
  mr_stop_queued :: bool
  mr_settings :: js_object
  mr_interimTimer :: bool

record app_state =
  settings :: js_object
  loading :: bool
  pttState :: ptt_state
  mediaStreamRef :: "media_stream option"
  mediaRecorderRef :: "media_recorder option"
  audioChunksRef :: "blob list"
  interimText :: string
  finalText :: string
  calls :: "call list"

text \<open>
  The state of the component: the values of its \<open>useState\<close> hooks and the contents
  of its refs, with the list of calls made so far. A handler reads the state variables
  of the render that built it. The handlers bound to the button are rebuilt on every
  render, so \<open>startRecording\<close> below is a function of the current state. The listener
  of the event \<open>ptt:stateChanged\<close> is built by an effect that runs only when
  \<open>settings\<close> changes: it calls the \<open>startRecording\<close> of that render, modelled by
  \<open>startRecording_from\<close>.
\<close>

text \<open>The state variables a handler captured from the render that built it.\<close>

record render =
  r_pttState :: ptt_state
  r_settings :: js_object

definition render_of :: "app_state \<Rightarrow> render" where
  "render_of s = \<lparr> r_pttState = pttState s, r_settings = settings s \<rparr>"

text \<open>The initial values of \<open>useState\<close> and \<open>useRef\<close> in \<open>App\<close>.\<close>

definition init_state :: app_state where
  "init_state = \<lparr> settings = DEFAULTS, loading = True, pttState = Idle,
     mediaStreamRef = None, mediaRecorderRef = None, audioChunksRef = [],
     interimText = [], finalText = [], calls = [] \<rparr>"

section \<open>Settings store\<close>

text \<open>
  The mount effect of \<open>App\<close>:
  \<^verbatim>\<open>invoke('settings_get').then((s) => { setSettings({ ...DEFAULTS, ...s }); setLoading(false) })
     .catch(() => setLoading(false))\<close>
  \<open>load_request\<close> issues the call; \<open>load_settled\<close> is the continuation that runs
  when the promise settles, with the backend's record or the rejection.
\<close>

definition load_request :: "app_state \<Rightarrow> app_state" where
  "load_request s = s\<lparr> calls := calls s @ [SettingsGet] \<rparr>"

definition load_settled :: "rejection + js_object \<Rightarrow> app_state \<Rightarrow> app_state" where
  "load_settled r s =
     (case r of
        Inr rec \<Rightarrow> s\<lparr> settings := spread DEFAULTS rec, loading := False \<rparr>
      | Inl e \<Rightarrow> s\<lparr> loading := False \<rparr>)"

definition load :: "rejection + js_object \<Rightarrow> app_state \<Rightarrow> app_state" where
  "load r s = load_settled r (load_request s)"

text \<open>
  \<^verbatim>\<open>const update = (partial) => {
    const next = { ...settings, ...partial }
    setSettings(next)
    invoke('settings_update', { partial }).catch(() => {})
  }\<close>
  \<open>update\<close> is the synchronous body. The promise has no \<open>then\<close> handler and an empty
  \<open>catch\<close> handler: \<open>update_settled\<close> is what runs when it settles.
\<close>

definition update :: "js_object \<Rightarrow> app_state \<Rightarrow> app_state" where
  "update partial s =
     (let next = spread (settings s) partial
      in s\<lparr> settings := next, calls := calls s @ [SettingsUpdate partial] \<rparr>)"

definition update_settled :: "rejection + js_object \<Rightarrow> app_state \<Rightarrow> app_state" where
  "update_settled r s = (case r of Inr v \<Rightarrow> s | Inl e \<Rightarrow> s)"

section \<open>Capture controller\<close>

text \<open>
  What the browser and the backend answer during a capture. \<open>getUserMedia\<close> resolves
  with a stream handle or rejects; \<open>readAsDataURL\<close> is the \<open>FileReader\<close> used by
  \<open>blobToBase64\<close>; the other fields are the results of the backend commands sent
  through \<open>invoke\<close>.
\<close>

record env =
  getUserMedia :: "rejection + nat"
  readAsDataURL :: "blob \<Rightarrow> rejection + string"
  stt_transcribe_once :: "js_object \<Rightarrow> string option \<Rightarrow> rejection + string"
  nlp_gemini_format :: "js_object \<Rightarrow> string \<Rightarrow> rejection + string"
  clipboard_set :: "string \<Rightarrow> rejection + unit"
  input_paste :: "rejection + unit"
  clipboard_clear :: "rejection + unit"

text \<open>\<open>str.split(c)\<close> for a one-character separator, and \<open>xs[i]\<close> with \<open>undefined\<close> out of range.\<close>

fun split_str :: "char \<Rightarrow> string \<Rightarrow> string list" where
  "split_str c [] = [[]]"
| "split_str c (x # xs) =
     (if x = c then [] # split_str c xs
      else (case split_str c xs of
              [] \<Rightarrow> [[x]]
            | w # ws \<Rightarrow> (x # w) # ws))"

fun index_opt :: "'a list \<Rightarrow> nat \<Rightarrow> 'a option" where
  "index_opt [] i = None"
| "index_opt (x # xs) 0 = Some x"
| "index_opt (x # xs) (Suc i) = index_opt xs i"

text \<open>
  \<^verbatim>\<open>function blobToBase64(blob) {
    return new Promise((resolve, reject) => {
      const reader = new FileReader()
      reader.onload = () => resolve(reader.result.split(',')[1])
      reader.onerror = reject
      reader.readAsDataURL(blob) }) }\<close>
\<close>

definition blobToBase64 :: "env \<Rightarrow> blob \<Rightarrow> rejection + string option" where
  "blobToBase64 env b =
     (case readAsDataURL env b of
        Inl e \<Rightarrow> Inl e
      | Inr result \<Rightarrow> Inr (index_opt (split_str CHR '','' result) (Suc 0)))"

text \<open>\<open>promise.catch(() => {})\<close>: a rejection becomes a fulfilment with \<open>undefined\<close>.\<close>

definition catch_ignore :: "rejection + unit \<Rightarrow> rejection + unit" where
  "catch_ignore r = (case r of Inl e \<Rightarrow> Inr () | Inr v \<Rightarrow> Inr v)"

text \<open>
  \<open>startRecording\<close> up to \<open>mr.start()\<close> (part_002, lines 144 to 174). The result
  pairs the rejection of the async function, if any (nothing handles it), with the
  state it leaves behind.
  \<^verbatim>\<open>if (pttState !== 'idle') return
  setFinalText(''); setInterimText(''); setPttState('recording')
  const stream = await navigator.mediaDevices.getUserMedia({ audio: true })
  mediaStreamRef.current = stream
  const mr = new MediaRecorder(stream)
  mediaRecorderRef.current = mr
  audioChunksRef.current = []
  const interimTimer = setInterval(...)
  mr.ondataavailable = ...; mr.onstop = ...
  mr.start()\<close>
  (src/app/src/App.tsx has the same function without the two transcript fields and
  without the timer.)
\<close>

definition startRecording :: "env \<Rightarrow> app_state \<Rightarrow> rejection option \<times> app_state" where
  "startRecording env s =
     (if pttState s \<noteq> Idle then (None, s)
      else
        let s1 = s\<lparr> finalText := [], interimText := [], pttState := Recording,
                    calls := calls s @ [GetUserMedia] \<rparr>
        in case getUserMedia env of
             Inl e \<Rightarrow> (Some e, s1)
           | Inr sid \<Rightarrow>
               (None,
                s1\<lparr> mediaStreamRef := Some \<lparr> stream_id = sid, tracks_live = True \<rparr>,
                    mediaRecorderRef := Some \<lparr> mr_stream = sid, mr_recording = True,
                      mr_stop_queued = False, mr_settings = settings s,
                      mr_interimTimer = True \<rparr>,
                    audioChunksRef := [],
                    calls := calls s1 @ [NewMediaRecorder sid, SetInterval, RecorderStart] \<rparr>))"

text \<open>\<^verbatim>\<open>mr.ondataavailable = (e) => { if (e.data.size > 0) audioChunksRef.current.push(e.data) }\<close>\<close>

definition ondataavailable :: "blob \<Rightarrow> app_state \<Rightarrow> app_state" where
  "ondataavailable data s =
     (if length data > 0 then s\<lparr> audioChunksRef := audioChunksRef s @ [data] \<rparr> else s)"

text \<open>
  The interval callback \<^verbatim>\<open>setInterimText((t) => (t ? t + ' ...' : '...'))\<close>, where the
  source has the single character U+2026 (here its three UTF-8 bytes) for the dots.
\<close>

definition ellipsis :: string where
  "ellipsis = [CHR 0xE2, CHR 0x80, CHR 0xA6]"

definition interimTick :: "app_state \<Rightarrow> app_state" where
  "interimTick s =
     (case mediaRecorderRef s of
        None \<Rightarrow> s
      | Some mr \<Rightarrow>
          if mr_interimTimer mr
          then s\<lparr> interimText :=
                 (if interimText s \<noteq> [] then interimText s @ '' '' @ ellipsis else ellipsis) \<rparr>
          else s)"

text \<open>
  \<^verbatim>\<open>const stopRecording = () => {
    mediaRecorderRef.current?.stop()
    mediaStreamRef.current?.getTracks().forEach((t) => t.stop()) }\<close>
  \<open>stop()\<close> on a recorder that is not recording does nothing; on a recording one it
  makes the recorder inactive and queues its \<open>stop\<close> event.
\<close>

definition stopRecording :: "app_state \<Rightarrow> app_state" where
  "stopRecording s =
     (let s1 = (case mediaRecorderRef s of
                  None \<Rightarrow> s
                | Some mr \<Rightarrow>
                    s\<lparr> mediaRecorderRef :=
                         Some (if mr_recording mr
                               then mr\<lparr> mr_recording := False, mr_stop_queued := True \<rparr>
                               else mr),
                       calls := calls s @ [RecorderStop] \<rparr>)
      in case mediaStreamRef s1 of
           None \<Rightarrow> s1
         | Some st \<Rightarrow>
             s1\<lparr> mediaStreamRef := Some (st\<lparr> tracks_live := False \<rparr>),
                 calls := calls s1 @ [TracksStop (stream_id st)] \<rparr>)"

text \<open>
  The handler \<open>mr.onstop\<close> (part_002, lines 159 to 172), run when the queued
  \<open>stop\<close> event of the current recorder is dispatched. Each \<open>await\<close> either continues
  with the value or ends the handler with the rejection, leaving the state as it is at
  that point. (src/app/src/App.tsx, lines 145 to 158, has the same sequence of calls
  without the timer and the transcript.)
  \<^verbatim>\<open>clearInterval(interimTimer)
  setPttState('processing')
  const blob = new Blob(audioChunksRef.current, { type: 'audio/webm' })
  const b64 = await blobToBase64(blob)
  const stt = await invoke('stt_transcribe_once', { settings, audioB64: b64 })
  setInterimText(''); setFinalText(stt)
  const formatted = await invoke('nlp_gemini_format', { settings, text: stt })
  await invoke('clipboard_set', { text: formatted })
  await invoke('input_paste')
  if (settings.autoClearClipboard) { await invoke('clipboard_clear').catch(() => {}) }
  setPttState('idle')\<close>
\<close>

definition mr_onstop :: "env \<Rightarrow> app_state \<Rightarrow> rejection option \<times> app_state" where
  "mr_onstop env s =
     (case mediaRecorderRef s of
        None \<Rightarrow> (None, s)
      | Some mr \<Rightarrow>
         (if \<not> mr_stop_queued mr then (None, s)
          else
           (let cfg = mr_settings mr;
                b = concat (audioChunksRef s);
                s1 = s\<lparr> mediaRecorderRef :=
                          Some (mr\<lparr> mr_stop_queued := False, mr_interimTimer := False \<rparr>),
                        pttState := Processing,
                        calls := calls s @ [ClearInterval, ReadAsDataURL b] \<rparr>
            in (case blobToBase64 env b of
                  Inl e \<Rightarrow> (Some e, s1)
                | Inr b64 \<Rightarrow>
           (let s2 = s1\<lparr> calls := calls s1 @ [SttTranscribeOnce cfg b64] \<rparr>
            in (case stt_transcribe_once env cfg b64 of
                  Inl e \<Rightarrow> (Some e, s2)
                | Inr stt \<Rightarrow>
           (let s3 = s2\<lparr> interimText := [], finalText := stt,
                         calls := calls s2 @ [NlpGeminiFormat cfg stt] \<rparr>
            in (case nlp_gemini_format env cfg stt of
                  Inl e \<Rightarrow> (Some e, s3)
                | Inr formatted \<Rightarrow>
           (let s4 = s3\<lparr> calls := calls s3 @ [ClipboardSet formatted] \<rparr>
            in (case clipboard_set env formatted of
                  Inl e \<Rightarrow> (Some e, s4)
                | Inr u \<Rightarrow>
           (let s5 = s4\<lparr> calls := calls s4 @ [InputPaste] \<rparr>
            in (case input_paste env of
                  Inl e \<Rightarrow> (Some e, s5)
                | Inr u \<Rightarrow>
           (if prop_truthy cfg ''autoClearClipboard''
            then
              (let s6 = s5\<lparr> calls := calls s5 @ [ClipboardClear] \<rparr>
               in (case catch_ignore (clipboard_clear env) of
                     Inl e \<Rightarrow> (Some e, s6)
                   | Inr u \<Rightarrow> (None, s6\<lparr> pttState := Idle \<rparr>)))
            else (None, s5\<lparr> pttState := Idle \<rparr>))))))))))))))"

text \<open>
  \<open>startRecording\<close> as built by the render \<open>rd\<close> and run in the state \<open>s\<close>: the guard
  and the \<open>settings\<close> captured by \<open>mr.onstop\<close> are those of \<open>rd\<close>, the setters and the
  refs act on \<open>s\<close>. The refs are overwritten, whatever they held.
\<close>

definition startRecording_from :: "env \<Rightarrow> render \<Rightarrow> app_state \<Rightarrow> rejection option \<times> app_state" where
  "startRecording_from env rd s =
     (if r_pttState rd \<noteq> Idle then (None, s)
      else
        let s1 = s\<lparr> finalText := [], interimText := [], pttState := Recording,
                    calls := calls s @ [GetUserMedia] \<rparr>
        in case getUserMedia env of
             Inl e \<Rightarrow> (Some e, s1)
           | Inr sid \<Rightarrow>
               (None,
                s1\<lparr> mediaStreamRef := Some \<lparr> stream_id = sid, tracks_live = True \<rparr>,
                    mediaRecorderRef := Some \<lparr> mr_stream = sid, mr_recording = True,
                      mr_stop_queued = False, mr_settings = r_settings rd,
                      mr_interimTimer = True \<rparr>,
                    audioChunksRef := [],
                    calls := calls s1 @ [NewMediaRecorder sid, SetInterval, RecorderStart] \<rparr>))"

text \<open>
  The listener registered by the second effect of \<open>App\<close> (part_002, lines 130 to 136;
  src/app/src/App.tsx, lines 120 to 126):
  \<^verbatim>\<open>useEffect(() => {
    const unlisten = window.__TAURI__?.event?.listen?.('ptt:stateChanged', (e) => {
      if (e?.payload === 'recording') startRecording()
      if (e?.payload === 'processing') stopRecording() })
    return () => { if (typeof unlisten === 'function') unlisten() }
  }, [settings])\<close>
  \<open>rd\<close> is the render in which the effect last ran, that is the render that followed
  the last change of \<open>settings\<close>. \<open>stopRecording\<close> reads refs only, so it does not
  depend on the render.
\<close>

definition on_ptt_stateChanged ::
    "env \<Rightarrow> render \<Rightarrow> string \<Rightarrow> app_state \<Rightarrow> rejection option \<times> app_state" where
  "on_ptt_stateChanged env rd payload s =
     (if payload = ''recording'' then startRecording_from env rd s
      else if payload = ''processing'' then (None, stopRecording s)
      else (None, s))"

text \<open>
  The \<open>dataavailable\<close> events of the current recorder, in order. A recorder started
  by \<open>mr.start()\<close> with no time slice delivers its data once \<open>stop()\<close> was called.
\<close>

definition recorder_data :: "blob list \<Rightarrow> app_state \<Rightarrow> app_state" where
  "recorder_data chunks s =
     (case mediaRecorderRef s of
        None \<Rightarrow> s
      | Some mr \<Rightarrow> foldl (\<lambda>st d. ondataavailable d st) s chunks)"

text \<open>
  One capture cycle: \<open>startRecording\<close>, \<open>stopRecording\<close>, the recorder's data events
  and its \<open>stop\<close> event. The rejection returned is that of \<open>startRecording\<close> if it
  has one, otherwise that of \<open>mr.onstop\<close>.
\<close>

definition capture_cycle :: "env \<Rightarrow> blob list \<Rightarrow> app_state \<Rightarrow> rejection option \<times> app_state" where
  "capture_cycle env chunks s =
     (case startRecording env s of
        (r1, s1) \<Rightarrow>
          (case mr_onstop env (recorder_data chunks (stopRecording s1)) of
             (r2, s2) \<Rightarrow> ((case r1 of Some e \<Rightarrow> Some e | None \<Rightarrow> r2), s2)))"

text \<open>The calls made between two states, and the texts handed to two of the commands.\<close>

definition new_calls :: "app_state \<Rightarrow> app_state \<Rightarrow> call list" where
  "new_calls s s' = drop (length (calls s)) (calls s')"

fun format_text :: "call \<Rightarrow> string option" where
  "format_text (NlpGeminiFormat cfg t) = Some t"
| "format_text c = None"

fun clipboard_text :: "call \<Rightarrow> string option" where
  "clipboard_text (ClipboardSet t) = Some t"
| "clipboard_text c = None"

fun stt_audio :: "call \<Rightarrow> string option option" where
  "stt_audio (SttTranscribeOnce cfg a) = Some a"
| "stt_audio c = None"

definition format_texts :: "call list \<Rightarrow> string list" where
  "format_texts cs = List.map_filter format_text cs"

definition clipboard_texts :: "call list \<Rightarrow> string list" where
  "clipboard_texts cs = List.map_filter clipboard_text cs"

definition stt_audios :: "call list \<Rightarrow> string option list" where
  "stt_audios cs = List.map_filter stt_audio cs"

section \<open>Key vault panel\<close>

text \<open>
  The repository holds two versions of the component \<open>KeysPanel\<close>. Both are modelled.
  The calls of the panel: the two backend commands and the browser's \<open>alert\<close>. An
  argument of \<open>keys_set\<close> is a string, \<open>undefined\<close> or \<open>null\<close>.
\<close>

datatype key_arg = KUndefined | KNull | KValue string

datatype keys_call = KeysGet | KeysSet key_arg key_arg | Alert string

subsection \<open>The panel with presence flags (src/unnamed/part_002, lines 316 to 334)\<close>

record keys_panel =
  hasGroq :: bool
  hasGemini :: bool
  groq :: string
  gemini :: string
  keys_calls :: "keys_call list"

definition keys_init :: keys_panel where
  "keys_init = \<lparr> hasGroq = False, hasGemini = False, groq = [], gemini = [], keys_calls = [] \<rparr>"

text \<open>
  \<^verbatim>\<open>invoke('keys_get').then((k) => { setHasGroq(!!k.hasGroq); setHasGemini(!!k.hasGemini) })
     .catch(() => {})\<close>
\<close>

definition keys_load_request :: "keys_panel \<Rightarrow> keys_panel" where
  "keys_load_request s = s\<lparr> keys_calls := keys_calls s @ [KeysGet] \<rparr>"

definition keys_load_settled :: "rejection + js_object \<Rightarrow> keys_panel \<Rightarrow> keys_panel" where
  "keys_load_settled r s =
     (case r of
        Inr k \<Rightarrow> s\<lparr> hasGroq := prop_truthy k ''hasGroq'', hasGemini := prop_truthy k ''hasGemini'' \<rparr>
      | Inl e \<Rightarrow> s)"

definition keys_load :: "rejection + js_object \<Rightarrow> keys_panel \<Rightarrow> keys_panel" where
  "keys_load r s = keys_load_settled r (keys_load_request s)"

text \<open>The \<open>onChange\<close> handlers of the two password inputs.\<close>

definition setGroq :: "string \<Rightarrow> keys_panel \<Rightarrow> keys_panel" where
  "setGroq v s = s\<lparr> groq := v \<rparr>"

definition setGemini :: "string \<Rightarrow> keys_panel \<Rightarrow> keys_panel" where
  "setGemini v s = s\<lparr> gemini := v \<rparr>"

text \<open>\<open>v || undefined\<close> for a string \<open>v\<close>: the empty string is falsy.\<close>

definition or_undefined :: "string \<Rightarrow> key_arg" where
  "or_undefined v = (if v \<noteq> [] then KValue v else KUndefined)"

text \<open>
  \<^verbatim>\<open>const save = async () => {
    await invoke('keys_set', { keys: { groqApiKey: groq || undefined, geminiApiKey: gemini || undefined } })
    setHasGroq(!!groq || hasGroq)
    setHasGemini(!!gemini || hasGemini)
    setGroq(''); setGemini('')
    alert('Saved (stored values are hidden for security)') }\<close>
  The first argument is the outcome of the \<open>keys_set\<close> command.
\<close>

definition save :: "rejection + unit \<Rightarrow> keys_panel \<Rightarrow> rejection option \<times> keys_panel" where
  "save r s =
     (let s1 = s\<lparr> keys_calls := keys_calls s
                  @ [KeysSet (or_undefined (groq s)) (or_undefined (gemini s))] \<rparr>
      in case r of
           Inl e \<Rightarrow> (Some e, s1)
         | Inr u \<Rightarrow>
             (None,
              s1\<lparr> hasGroq := (groq s \<noteq> [] \<or> hasGroq s),
                  hasGemini := (gemini s \<noteq> [] \<or> hasGemini s),
                  groq := [],
                  gemini := [],
                  keys_calls := keys_calls s1
                    @ [Alert ''Saved (stored values are hidden for security)''] \<rparr>))"

text \<open>
  \<open>save\<close> above runs the function with nothing in between. The function is suspended
  at its \<open>await\<close>: \<open>save_click\<close> is the part before it, which sends \<open>keys_set\<close>, and
  \<open>save_resume\<close> the part after it. The four names \<open>groq\<close>, \<open>gemini\<close>, \<open>hasGroq\<close>
  and \<open>hasGemini\<close> in the function are constants of the render in which the button was
  clicked; \<open>save_resume\<close> computes the flags from them and writes into the state the
  panel has when \<open>keys_set\<close> settles.
\<close>

record save_closure =
  sc_groq :: string
  sc_gemini :: string
  sc_hasGroq :: bool
  sc_hasGemini :: bool

definition save_click :: "keys_panel \<Rightarrow> save_closure \<times> keys_panel" where
  "save_click s =
     (\<lparr> sc_groq = groq s, sc_gemini = gemini s,
        sc_hasGroq = hasGroq s, sc_hasGemini = hasGemini s \<rparr>,
      s\<lparr> keys_calls := keys_calls s
           @ [KeysSet (or_undefined (groq s)) (or_undefined (gemini s))] \<rparr>)"

definition save_resume ::
    "rejection + unit \<Rightarrow> save_closure \<Rightarrow> keys_panel \<Rightarrow> rejection option \<times> keys_panel" where
  "save_resume r c s =
     (case r of
        Inl e \<Rightarrow> (Some e, s)
      | Inr u \<Rightarrow>
          (None,
           s\<lparr> hasGroq := (sc_groq c \<noteq> [] \<or> sc_hasGroq c),
               hasGemini := (sc_gemini c \<noteq> [] \<or> sc_hasGemini c),
               groq := [],
               gemini := [],
               keys_calls := keys_calls s
                 @ [Alert ''Saved (stored values are hidden for security)''] \<rparr>))"

text \<open>What a user does with the panel after it has loaded: type into a field, or save.\<close>

datatype keys_event = TypeGroq string | TypeGemini string | Save "rejection + unit"

fun keys_step :: "keys_panel \<Rightarrow> keys_event \<Rightarrow> keys_panel" where
  "keys_step s (TypeGroq v) = setGroq v s"
| "keys_step s (TypeGemini v) = setGemini v s"
| "keys_step s (Save r) = snd (save r s)"

definition keys_run :: "keys_event list \<Rightarrow> keys_panel \<Rightarrow> keys_panel" where
  "keys_run evs s = foldl keys_step s evs"

subsection \<open>The panel of src/app/src/App.tsx, lines 279 to 291\<close>

text \<open>
  This version has no presence flags. The reply of \<open>keys_get\<close> is typed
  \<^verbatim>\<open>{ groqApiKey?: string; geminiApiKey?: string }\<close>.
\<close>

record keys_reply =
  groqApiKey :: "string option"
  geminiApiKey :: "string option"

record app_keys_panel =
  app_groq :: string
  app_gemini :: string
  app_keys_calls :: "keys_call list"

definition app_keys_init :: app_keys_panel where
  "app_keys_init = \<lparr> app_groq = [], app_gemini = [], app_keys_calls = [] \<rparr>"

text \<open>\<open>v || ''\<close> for an optional string, and \<open>v || null\<close> for a string.\<close>

definition or_empty :: "string option \<Rightarrow> string" where
  "or_empty v = (case v of None \<Rightarrow> [] | Some x \<Rightarrow> (if x \<noteq> [] then x else []))"

definition or_null :: "string \<Rightarrow> key_arg" where
  "or_null v = (if v \<noteq> [] then KValue v else KNull)"

text \<open>
  \<^verbatim>\<open>invoke('keys_get').then((k) => { setGroq(k.groqApiKey || ''); setGemini(k.geminiApiKey || '') })
     .catch(() => {})\<close>
\<close>

definition app_keys_load_request :: "app_keys_panel \<Rightarrow> app_keys_panel" where
  "app_keys_load_request s = s\<lparr> app_keys_calls := app_keys_calls s @ [KeysGet] \<rparr>"

definition app_keys_load_settled :: "rejection + keys_reply \<Rightarrow> app_keys_panel \<Rightarrow> app_keys_panel" where
  "app_keys_load_settled r s =
     (case r of
        Inr k \<Rightarrow> s\<lparr> app_groq := or_empty (groqApiKey k), app_gemini := or_empty (geminiApiKey k) \<rparr>
      | Inl e \<Rightarrow> s)"

definition app_keys_load :: "rejection + keys_reply \<Rightarrow> app_keys_panel \<Rightarrow> app_keys_panel" where
  "app_keys_load r s = app_keys_load_settled r (app_keys_load_request s)"

text \<open>
  \<^verbatim>\<open>const save = async () => {
    await invoke('keys_set', { keys: { groqApiKey: groq || null, geminiApiKey: gemini || null } })
    alert('Saved keys locally') }\<close>
\<close>

definition app_save :: "rejection + unit \<Rightarrow> app_keys_panel \<Rightarrow> rejection option \<times> app_keys_panel" where
  "app_save r s =
     (let s1 = s\<lparr> app_keys_calls := app_keys_calls s
                  @ [KeysSet (or_null (app_groq s)) (or_null (app_gemini s))] \<rparr>
      in case r of
           Inl e \<Rightarrow> (Some e, s1)
         | Inr u \<Rightarrow> (None, s1\<lparr> app_keys_calls := app_keys_calls s1 @ [Alert ''Saved keys locally''] \<rparr>))"

section \<open>Service worker (src/unnamed/part_001)\<close>

record request =
  req_method :: string
  req_url :: string

record response =
  resp_status :: nat
  resp_body :: string

text \<open>
  The network answers a request with a response or the \<open>fetch\<close> throws; the cache
  storage gives, for a cache name, the response stored for a request, if any.
\<close>

record sw_env =
  network :: "request \<Rightarrow> rejection + response"
  cache_storage :: "string \<Rightarrow> request \<Rightarrow> response option"

datatype sw_call = Fetch request | CachesOpen string | CacheMatch request

text \<open>
  The async function handed to \<open>respondWith\<close>:
  \<^verbatim>\<open>try { return await fetch(e.request) } catch {
    const cache = await caches.open('ptt-cache-v1')
    const res = await cache.match(e.request)
    if (res) return res
    throw new Error('offline') }\<close>
\<close>

definition sw_respond :: "sw_env \<Rightarrow> request \<Rightarrow> (rejection + response) \<times> sw_call list" where
  "sw_respond env req =
     (case network env req of
        Inr res \<Rightarrow> (Inr res, [Fetch req])
      | Inl e \<Rightarrow>
          (let cache = cache_storage env ''ptt-cache-v1''
           in (case cache req of
                 Some res \<Rightarrow> (Inr res, [Fetch req, CachesOpen ''ptt-cache-v1'', CacheMatch req])
               | None \<Rightarrow>
                   (Inl (Rejected ''offline''),
                    [Fetch req, CachesOpen ''ptt-cache-v1'', CacheMatch req]))))"

text \<open>
  The \<open>fetch\<close> listener:
  \<^verbatim>\<open>if (e.request.method !== 'GET') return
  e.respondWith((async () => { ... })())\<close>
  The first component is \<open>None\<close> when \<open>respondWith\<close> is not called, and otherwise the
  outcome of the promise handed to it.
\<close>

definition on_fetch :: "sw_env \<Rightarrow> request \<Rightarrow> (rejection + response) option \<times> sw_call list" where
  "on_fetch env req =
     (if req_method req \<noteq> ''GET'' then (None, [])
      else (case sw_respond env req of (r, cs) \<Rightarrow> (Some r, cs)))"

section \<open>Example inputs\<close>

text \<open>
  A backend that transcribes and formats, with a clipboard that cannot be cleared; the
  same with a microphone that is refused; three audio chunks; the settings as loaded,
  and with formatting switched off.
\<close>

definition ex_env :: env where
  "ex_env = \<lparr> getUserMedia = Inr 7,
     readAsDataURL = (\<lambda>b. Inr ''data:audio/webm;base64,AQIDBAUG''),
     stt_transcribe_once = (\<lambda>cfg a. Inr ''hello world''),
     nlp_gemini_format = (\<lambda>cfg t. Inr ''Hello, world.''),
     clipboard_set = (\<lambda>t. Inr ()),
     input_paste = Inr (),
     clipboard_clear = Inl (Rejected ''clipboard busy'') \<rparr>"

definition denied_env :: env where
  "denied_env = ex_env\<lparr> getUserMedia := Inl (Rejected ''NotAllowedError'') \<rparr>"

definition ex_chunks :: "blob list" where
  "ex_chunks = [[1, 2], [3], [4, 5, 6]]"

definition loaded_state :: app_state where
  "loaded_state = load (Inr Map.empty) init_state"

definition plain_state :: app_state where
  "plain_state = update [''enableGemini'' \<mapsto> JBool False] loaded_state"

definition ex_sw_env :: sw_env where
  "ex_sw_env = \<lparr>
     network = (\<lambda>r. if req_url r = ''/live'' then Inr \<lparr> resp_status = 200, resp_body = ''fresh'' \<rparr>
                    else Inl (Rejected ''Failed to fetch'')),
     cache_storage = (\<lambda>name r. if name = ''ptt-cache-v1'' \<and> req_url r = ''/cached''
                    then Some \<lparr> resp_status = 200, resp_body = ''stale'' \<rparr> else None) \<rparr>"

text \<open>
  A backend whose transcription fails, which leaves a cycle in \<open>processing\<close>; the
  state while recording after the button was pressed in the loaded state.
\<close>

definition stuck_env :: env where
  "stuck_env = ex_env\<lparr> stt_transcribe_once := (\<lambda>cfg a. Inl (Rejected ''timeout'')) \<rparr>"

definition recording_state :: app_state where
  "recording_state = snd (startRecording ex_env loaded_state)"

definition processing_state :: app_state where
  "processing_state = snd (capture_cycle stuck_env ex_chunks loaded_state)"

text \<open>
  Two saves that overlap. The user types a Groq key and clicks Save; while
  \<open>keys_set\<close> is pending the user empties that field, types a Gemini key and clicks Save
  again; then the two calls resolve, in the order they were sent.
\<close>

definition first_click :: "save_closure \<times> keys_panel" where
  "first_click = save_click (setGroq ''gsk_1'' keys_init)"

definition second_click :: "save_closure \<times> keys_panel" where
  "second_click = save_click (setGemini ''AIza_1'' (setGroq [] (snd first_click)))"

definition first_settled :: keys_panel where
  "first_settled = snd (save_resume (Inr ()) (fst first_click) (snd second_click))"

definition second_settled :: keys_panel where
  "second_settled = snd (save_resume (Inr ()) (fst second_click) first_settled)"

text \<open>
  A save clicked before \<open>keys_get\<close> has answered: the user types a Gemini key and clicks
  Save, then \<open>keys_get\<close> resolves saying that a Groq key is stored, then \<open>keys_set\<close>
  resolves.
\<close>

definition early_click :: "save_closure \<times> keys_panel" where
  "early_click = save_click (setGemini ''AIza_1'' (keys_load_request keys_init))"

definition early_loaded :: keys_panel where
  "early_loaded = keys_load_settled (Inr [''hasGroq'' \<mapsto> JBool True, ''hasGemini'' \<mapsto> JBool False])
     (snd early_click)"

definition early_settled :: keys_panel where
  "early_settled = snd (save_resume (Inr ()) (fst early_click) early_loaded)"

section \<open>Properties of the settings store\<close>

lemma spread_present: "b k = Some v \<Longrightarrow> spread a b k = Some v"
  by (simp add: spread_def)

lemma spread_absent: "b k = None \<Longrightarrow> spread a b k = a k"
  by (simp add: spread_def)

lemma dom_spread: "dom (spread a b) = dom a \<union> dom b"
  by (auto simp: spread_def dom_def split: option.splits)

lemma spread_empty: "spread a Map.empty = a"
  by (simp add: spread_def)

text \<open>
  C2. Whatever record the backend returns (empty and partial records included), after
  \<open>load\<close> the settings hold every key of \<open>DEFAULTS\<close>; a key the backend record has
  carries the backend's value, a key it lacks carries the default. When the fetch is
  rejected the settings are \<open>DEFAULTS\<close> unchanged, and \<open>loading\<close> is cleared in both
  cases.
\<close>

theorem load_merges_over_defaults:
  "dom DEFAULTS \<subseteq> dom (settings (load (Inr rec) init_state))
   \<and> (\<forall>k v. rec k = Some v \<longrightarrow> settings (load (Inr rec) init_state) k = Some v)
   \<and> (\<forall>k. rec k = None \<longrightarrow> settings (load (Inr rec) init_state) k = DEFAULTS k)
   \<and> \<not> loading (load (Inr rec) init_state)
   \<and> settings (load (Inl e) init_state) = DEFAULTS
   \<and> \<not> loading (load (Inl e) init_state)"
  by (simp add: load_def load_request_def load_settled_def init_state_def
      dom_spread spread_present spread_absent)

theorem load_merges_over_defaults_witness:
  "settings (load (Inr [''maskPhone'' \<mapsto> JBool False]) init_state) ''maskPhone'' = Some (JBool False)
   \<and> settings (load (Inr [''maskPhone'' \<mapsto> JBool False]) init_state) ''maskEmail'' = Some (JBool True)
   \<and> settings (load (Inr Map.empty) init_state) ''dlpAction'' = Some (JStr ''mask'')
   \<and> \<not> loading (load (Inr Map.empty) init_state)"
  using load_merges_over_defaults [of "[''maskPhone'' \<mapsto> JBool False]" undefined]
    load_merges_over_defaults [of Map.empty undefined]
  by (simp add: DEFAULTS_def spread_def)

text \<open>
  C4. \<open>update p\<close> replaces the in-memory settings by the merge of the old settings with
  \<open>p\<close> in its synchronous part, before the backend answers: keys of \<open>p\<close> win, every
  other key is unchanged. When the persist call settles, with a result or with a
  rejection, the state is left as it is, so the merge is never rolled back.
\<close>

theorem update_merges_immediately:
  "settings (update p s) = spread (settings s) p
   \<and> (\<forall>k v. p k = Some v \<longrightarrow> settings (update p s) k = Some v)
   \<and> (\<forall>k. p k = None \<longrightarrow> settings (update p s) k = settings s k)
   \<and> calls (update p s) = calls s @ [SettingsUpdate p]
   \<and> update_settled (Inl e) (update p s) = update p s
   \<and> update_settled (Inr v) (update p s) = update p s"
  by (simp add: update_def update_settled_def Let_def spread_present spread_absent)

theorem update_merges_immediately_witness:
  "settings (update [''maskPhone'' \<mapsto> JBool False] init_state) ''maskPhone'' = Some (JBool False)
   \<and> settings (update [''maskPhone'' \<mapsto> JBool False] init_state) ''maskEmail'' = Some (JBool True)
   \<and> settings (update_settled (Inl (Rejected ''io''))
        (update [''maskPhone'' \<mapsto> JBool False] init_state)) ''maskPhone'' = Some (JBool False)"
  using update_merges_immediately [of "[''maskPhone'' \<mapsto> JBool False]" init_state "Rejected ''io''" undefined]
  by (simp add: init_state_def DEFAULTS_def spread_def)

section \<open>Properties of the capture controller\<close>

lemma concat_filter_nonempty: "concat (filter (\<lambda>d. d \<noteq> []) chunks) = concat chunks"
  by (induction chunks) auto

lemma foldl_ondataavailable:
  "foldl (\<lambda>st d. ondataavailable d st) s chunks =
     s\<lparr> audioChunksRef := audioChunksRef s @ filter (\<lambda>d. d \<noteq> []) chunks \<rparr>"
  by (induction chunks arbitrary: s) (simp_all add: ondataavailable_def)

lemma catch_ignore_fulfils: "catch_ignore r = Inr ()"
  by (cases r) (simp_all add: catch_ignore_def)

text \<open>
  A cycle started in \<open>idle\<close> in which the stream is granted and every awaited call up
  to the paste resolves: the calls it makes, in order, and the state it ends in. The
  outcome of \<open>clipboard_clear\<close> is not constrained.
\<close>

lemma capture_cycle_ok:
  assumes "pttState s = Idle"
    and "getUserMedia env = Inr sid"
    and "blobToBase64 env (concat chunks) = Inr b64"
    and "stt_transcribe_once env (settings s) b64 = Inr raw"
    and "nlp_gemini_format env (settings s) raw = Inr formatted"
    and "clipboard_set env formatted = Inr ()"
    and "input_paste env = Inr ()"
  shows "fst (capture_cycle env chunks s) = None"
    and "pttState (snd (capture_cycle env chunks s)) = Idle"
    and "finalText (snd (capture_cycle env chunks s)) = raw"
    and "new_calls s (snd (capture_cycle env chunks s)) =
           [GetUserMedia, NewMediaRecorder sid, SetInterval, RecorderStart,
             RecorderStop, TracksStop sid, ClearInterval, ReadAsDataURL (concat chunks),
             SttTranscribeOnce (settings s) b64, NlpGeminiFormat (settings s) raw,
             ClipboardSet formatted, InputPaste]
           @ (if prop_truthy (settings s) ''autoClearClipboard'' then [ClipboardClear] else [])"
  using assms
  by (simp_all add: capture_cycle_def startRecording_def stopRecording_def recorder_data_def
      mr_onstop_def foldl_ondataavailable concat_filter_nonempty catch_ignore_fulfils Let_def
      new_calls_def)

lemma ex_env_simps:
  "getUserMedia ex_env = Inr 7"
  "blobToBase64 ex_env b = Inr (Some ''AQIDBAUG'')"
  "stt_transcribe_once ex_env cfg a = Inr ''hello world''"
  "nlp_gemini_format ex_env cfg t = Inr ''Hello, world.''"
  "clipboard_set ex_env t = Inr ()"
  "input_paste ex_env = Inr ()"
  "clipboard_clear ex_env = Inl (Rejected ''clipboard busy'')"
  by (simp_all add: ex_env_def blobToBase64_def)

lemma ex_states_simps:
  "pttState loaded_state = Idle"
  "pttState plain_state = Idle"
  "prop_truthy (settings loaded_state) ''enableGemini''"
  "prop_truthy (settings loaded_state) ''autoClearClipboard''"
  "\<not> prop_truthy (settings plain_state) ''enableGemini''"
  "prop_truthy (settings plain_state) ''autoClearClipboard''"
  "calls loaded_state = [SettingsGet]"
  by (simp_all add: plain_state_def loaded_state_def update_def load_def load_request_def
      load_settled_def init_state_def DEFAULTS_def spread_def prop_truthy_def)

text \<open>
  C1, as the code has it. In every cycle started in \<open>idle\<close> whose awaited calls
  resolve, whatever the value of \<open>enableGemini\<close>: \<open>stt_transcribe_once\<close> is invoked
  once, with the base64 text of the concatenated chunks; \<open>nlp_gemini_format\<close> is invoked
  once, with the settings and the transcript; and \<open>clipboard_set\<close> is invoked once, with
  the text the formatting call returned.
\<close>

theorem cycle_formats_regardless_of_enableGemini:
  assumes "pttState s = Idle"
    and "getUserMedia env = Inr sid"
    and "blobToBase64 env (concat chunks) = Inr b64"
    and "stt_transcribe_once env (settings s) b64 = Inr raw"
    and "nlp_gemini_format env (settings s) raw = Inr formatted"
    and "clipboard_set env formatted = Inr ()"
    and "input_paste env = Inr ()"
  shows "stt_audios (new_calls s (snd (capture_cycle env chunks s))) = [b64]
    \<and> format_texts (new_calls s (snd (capture_cycle env chunks s))) = [raw]
    \<and> NlpGeminiFormat (settings s) raw \<in> set (new_calls s (snd (capture_cycle env chunks s)))
    \<and> clipboard_texts (new_calls s (snd (capture_cycle env chunks s))) = [formatted]"
  by (simp add: capture_cycle_ok(4) [OF assms] stt_audios_def format_texts_def
      clipboard_texts_def List.map_filter_def)

theorem cycle_formats_regardless_of_enableGemini_witness:
  "prop_truthy (settings loaded_state) ''enableGemini''
   \<and> stt_audios (new_calls loaded_state (snd (capture_cycle ex_env ex_chunks loaded_state)))
       = [Some ''AQIDBAUG'']
   \<and> format_texts (new_calls loaded_state (snd (capture_cycle ex_env ex_chunks loaded_state)))
       = [''hello world'']
   \<and> clipboard_texts (new_calls loaded_state (snd (capture_cycle ex_env ex_chunks loaded_state)))
       = [''Hello, world.'']"
  using cycle_formats_regardless_of_enableGemini
    [of loaded_state ex_env 7 ex_chunks "Some ''AQIDBAUG''" "''hello world''" "''Hello, world.''"]
  by (simp add: ex_env_simps ex_states_simps)

text \<open>
  The claim C1 fails where \<open>enableGemini\<close> is false: the formatting command is invoked
  all the same, and the clipboard receives its result, not the transcript.
\<close>

theorem formatting_invoked_when_disabled:
  "\<not> prop_truthy (settings plain_state) ''enableGemini''
   \<and> settings plain_state ''enableGemini'' = Some (JBool False)
   \<and> format_texts (new_calls plain_state (snd (capture_cycle ex_env ex_chunks plain_state)))
       = [''hello world'']
   \<and> clipboard_texts (new_calls plain_state (snd (capture_cycle ex_env ex_chunks plain_state)))
       = [''Hello, world.'']"
proof -
  have "new_calls plain_state (snd (capture_cycle ex_env ex_chunks plain_state)) =
      [GetUserMedia, NewMediaRecorder 7, SetInterval, RecorderStart,
       RecorderStop, TracksStop 7, ClearInterval, ReadAsDataURL (concat ex_chunks),
       SttTranscribeOnce (settings plain_state) (Some ''AQIDBAUG''),
       NlpGeminiFormat (settings plain_state) ''hello world'',
       ClipboardSet ''Hello, world.'', InputPaste, ClipboardClear]"
    by (simp add: capture_cycle_ok(4) [of plain_state ex_env 7 ex_chunks] ex_env_simps ex_states_simps)
  moreover have "settings plain_state ''enableGemini'' = Some (JBool False)"
    by (simp add: plain_state_def update_def spread_def)
  ultimately show ?thesis
    by (simp add: ex_states_simps format_texts_def clipboard_texts_def List.map_filter_def)
qed

text \<open>
  The \<open>startRecording\<close> of the current render, which is the one the button calls,
  returns at its guard while the controller is in \<open>recording\<close> or \<open>processing\<close>: the
  state is the one it was given. It is \<open>startRecording_from\<close> at the render of the
  current state.
\<close>

lemma startRecording_current_render:
  "startRecording env s = startRecording_from env (render_of s) s"
  by (simp add: startRecording_def startRecording_from_def render_of_def Let_def
      split: sum.splits)

lemma button_start_noop_when_busy:
  "pttState s = Recording \<or> pttState s = Processing \<Longrightarrow> startRecording env s = (None, s)"
  by (auto simp: startRecording_def)

lemma stuck_env_simps:
  "getUserMedia stuck_env = Inr 7"
  "blobToBase64 stuck_env b = Inr (Some ''AQIDBAUG'')"
  "stt_transcribe_once stuck_env cfg a = Inl (Rejected ''timeout'')"
  by (simp_all add: stuck_env_def ex_env_def blobToBase64_def)

lemma race_states_simps:
  "pttState recording_state = Recording"
  "settings recording_state = settings loaded_state"
  "pttState processing_state = Processing"
  "settings processing_state = settings loaded_state"
  "render_of loaded_state = \<lparr> r_pttState = Idle, r_settings = settings loaded_state \<rparr>"
  by (simp_all add: recording_state_def processing_state_def stuck_env_simps render_of_def
      capture_cycle_def startRecording_def stopRecording_def recorder_data_def mr_onstop_def
      foldl_ondataavailable ex_env_simps ex_states_simps Let_def)

text \<open>
  C5 fails on the code. The listener of \<open>ptt:stateChanged\<close> belongs to the render
  that followed the last change of \<open>settings\<close>, here the render of the loaded state, in
  which \<open>pttState\<close> was \<open>idle\<close>. When the event \<open>recording\<close> arrives while the
  controller is recording (after the button was pressed) or processing, with the
  settings unchanged since, that \<open>startRecording\<close> passes its guard: it clears the
  transcript, requests a second stream, builds a second recorder and, from
  \<open>processing\<close>, sets the state back to \<open>recording\<close>.
\<close>

theorem stale_listener_starts_while_busy:
  "pttState recording_state = Recording
   \<and> settings recording_state = settings loaded_state
   \<and> new_calls recording_state
        (snd (on_ptt_stateChanged ex_env (render_of loaded_state) ''recording'' recording_state))
       = [GetUserMedia, NewMediaRecorder 7, SetInterval, RecorderStart]
   \<and> pttState processing_state = Processing
   \<and> settings processing_state = settings loaded_state
   \<and> finalText (snd (on_ptt_stateChanged ex_env (render_of loaded_state) ''recording''
        (processing_state\<lparr> finalText := ''kept'' \<rparr>))) = []
   \<and> new_calls processing_state
        (snd (on_ptt_stateChanged ex_env (render_of loaded_state) ''recording'' processing_state))
       = [GetUserMedia, NewMediaRecorder 7, SetInterval, RecorderStart]
   \<and> pttState
        (snd (on_ptt_stateChanged ex_env (render_of loaded_state) ''recording'' processing_state))
       = Recording"
  by (simp add: race_states_simps on_ptt_stateChanged_def startRecording_from_def new_calls_def
      ex_env_simps Let_def)

text \<open>The state in which a rejected \<open>getUserMedia\<close> leaves \<open>startRecording\<close>.\<close>

lemma startRecording_rejected:
  assumes "pttState s = Idle" and "getUserMedia env = Inl e"
  shows "startRecording env s =
    (Some e, s\<lparr> finalText := [], interimText := [], pttState := Recording,
        calls := calls s @ [GetUserMedia] \<rparr>)"
  using assms by (simp add: startRecording_def Let_def)

text \<open>
  C6 fails on the code. When \<open>getUserMedia\<close> rejects, \<open>startRecording\<close> ends with that
  rejection after it has set the state to \<open>recording\<close>; the state \<open>error\<close> is not
  entered. The request is made once. With no recorder to stop, the rest of the cycle
  leaves the controller in \<open>recording\<close>, where a further \<open>startRecording\<close> does nothing.
\<close>

theorem stream_failure_leaves_recording:
  assumes "pttState s = Idle"
    and "getUserMedia env = Inl e"
  shows "fst (startRecording env s) = Some e
    \<and> pttState (snd (startRecording env s)) = Recording
    \<and> pttState (snd (startRecording env s)) \<noteq> Error
    \<and> new_calls s (snd (startRecording env s)) = [GetUserMedia]
    \<and> (mediaRecorderRef s = None \<longrightarrow>
          pttState (snd (capture_cycle env chunks s)) = Recording
          \<and> filter (\<lambda>c. c = GetUserMedia) (new_calls s (snd (capture_cycle env chunks s)))
              = [GetUserMedia]
          \<and> startRecording env' (snd (capture_cycle env chunks s))
              = (None, snd (capture_cycle env chunks s)))"
proof -
  have start: "startRecording env s =
    (Some e, s\<lparr> finalText := [], interimText := [], pttState := Recording,
        calls := calls s @ [GetUserMedia] \<rparr>)"
    using assms by (rule startRecording_rejected)
  have "pttState (snd (capture_cycle env chunks s)) = Recording
      \<and> filter (\<lambda>c. c = GetUserMedia) (new_calls s (snd (capture_cycle env chunks s)))
          = [GetUserMedia]"
    if "mediaRecorderRef s = None"
    using that
    by (cases "mediaStreamRef s")
      (simp_all add: capture_cycle_def start stopRecording_def
        recorder_data_def mr_onstop_def new_calls_def)
  moreover have "startRecording env' s' = (None, s')" if "pttState s' = Recording" for s'
    using that by (simp add: startRecording_def)
  moreover have "fst (startRecording env s) = Some e
      \<and> pttState (snd (startRecording env s)) = Recording
      \<and> new_calls s (snd (startRecording env s)) = [GetUserMedia]"
    by (simp add: start new_calls_def)
  ultimately show ?thesis
    by simp
qed

theorem stream_failure_leaves_recording_witness:
  "fst (startRecording denied_env loaded_state) = Some (Rejected ''NotAllowedError'')
   \<and> pttState (snd (startRecording denied_env loaded_state)) = Recording
   \<and> pttState (snd (capture_cycle denied_env [] loaded_state)) = Recording"
proof -
  have "getUserMedia denied_env = Inl (Rejected ''NotAllowedError'')"
    by (simp add: denied_env_def)
  moreover have "mediaRecorderRef loaded_state = None"
    by (simp add: loaded_state_def load_def load_request_def load_settled_def init_state_def)
  ultimately show ?thesis
    using stream_failure_leaves_recording [of loaded_state denied_env "Rejected ''NotAllowedError''" "[]" denied_env]
    by (simp add: ex_states_simps)
qed

text \<open>No handler of the component sets the state \<open>error\<close>.\<close>

lemma handlers_never_enter_Error:
  assumes "pttState s \<noteq> Error"
  shows "pttState (snd (startRecording env s)) \<noteq> Error"
    and "pttState (stopRecording s) \<noteq> Error"
    and "pttState (ondataavailable d s) \<noteq> Error"
    and "pttState (interimTick s) \<noteq> Error"
    and "pttState (snd (mr_onstop env s)) \<noteq> Error"
    and "pttState (load_settled r s) \<noteq> Error"
    and "pttState (update p s) \<noteq> Error"
  using assms
  by (auto simp: startRecording_def stopRecording_def ondataavailable_def interimTick_def
      mr_onstop_def load_settled_def update_def Let_def
      split: option.splits sum.splits if_splits)

text \<open>
  C7. In a cycle started in \<open>idle\<close> whose awaited calls up to the paste resolve,
  \<open>clipboard_clear\<close> is invoked exactly when \<open>settings.autoClearClipboard\<close> is truthy
  (for a boolean: when it is \<open>true\<close>); when it is invoked it is the only call
  after \<open>input_paste\<close>, which follows \<open>clipboard_set\<close>. Whatever the clear call
  answers, a rejection included, the handler ends without a rejection and the
  controller is back in \<open>idle\<close>.
\<close>

theorem clear_iff_autoClearClipboard:
  assumes "pttState s = Idle"
    and "getUserMedia env = Inr sid"
    and "blobToBase64 env (concat chunks) = Inr b64"
    and "stt_transcribe_once env (settings s) b64 = Inr raw"
    and "nlp_gemini_format env (settings s) raw = Inr formatted"
    and "clipboard_set env formatted = Inr ()"
    and "input_paste env = Inr ()"
  shows "(ClipboardClear \<in> set (new_calls s (snd (capture_cycle env chunks s))))
        = prop_truthy (settings s) ''autoClearClipboard''
    \<and> (\<forall>a. settings s ''autoClearClipboard'' = Some (JBool a) \<longrightarrow>
          (ClipboardClear \<in> set (new_calls s (snd (capture_cycle env chunks s)))) = a)
    \<and> dropWhile (\<lambda>c. c \<noteq> ClipboardSet formatted) (new_calls s (snd (capture_cycle env chunks s)))
        = [ClipboardSet formatted, InputPaste]
          @ (if prop_truthy (settings s) ''autoClearClipboard'' then [ClipboardClear] else [])
    \<and> fst (capture_cycle env chunks s) = None
    \<and> pttState (snd (capture_cycle env chunks s)) = Idle"
  by (simp add: capture_cycle_ok [OF assms] prop_truthy_def)

theorem clear_iff_autoClearClipboard_witness:
  "clipboard_clear ex_env = Inl (Rejected ''clipboard busy'')
   \<and> settings loaded_state ''autoClearClipboard'' = Some (JBool True)
   \<and> ClipboardClear \<in> set (new_calls loaded_state (snd (capture_cycle ex_env ex_chunks loaded_state)))
   \<and> fst (capture_cycle ex_env ex_chunks loaded_state) = None
   \<and> pttState (snd (capture_cycle ex_env ex_chunks loaded_state)) = Idle"
proof -
  have "settings loaded_state ''autoClearClipboard'' = Some (JBool True)"
    by (simp add: loaded_state_def load_def load_request_def load_settled_def spread_def DEFAULTS_def)
  then show ?thesis
    using clear_iff_autoClearClipboard
      [of loaded_state ex_env 7 ex_chunks "Some ''AQIDBAUG''" "''hello world''" "''Hello, world.''"]
    by (simp add: ex_env_simps ex_states_simps)
qed

section \<open>Properties of the key vault panel\<close>

text \<open>
  The panel of part_002 takes from the reply of \<open>keys_get\<close> the truth values of its
  properties \<open>hasGroq\<close> and \<open>hasGemini\<close> and nothing else: two replies that agree on
  them leave the same state, and the input buffers are not written.
\<close>

lemma keys_load_reads_presence_only:
  assumes "prop_truthy k ''hasGroq'' = prop_truthy k' ''hasGroq''"
    and "prop_truthy k ''hasGemini'' = prop_truthy k' ''hasGemini''"
  shows "keys_load (Inr k) s = keys_load (Inr k') s"
  using assms by (simp add: keys_load_def keys_load_settled_def)

lemma keys_load_keeps_buffers:
  "groq (keys_load r s) = groq s \<and> gemini (keys_load r s) = gemini s"
  by (simp add: keys_load_def keys_load_settled_def keys_load_request_def split: sum.splits)

text \<open>
  C3 fails on src/app/src/App.tsx. Its panel asks \<open>keys_get\<close> for the stored keys and
  puts what it receives into the two input buffers: after the load the state of the
  panel holds both stored secrets.
\<close>

theorem app_keys_load_holds_stored_secrets:
  "app_groq (app_keys_load
       (Inr \<lparr> groqApiKey = Some ''gsk_stored'', geminiApiKey = Some ''AIza_stored'' \<rparr>)
       app_keys_init) = ''gsk_stored''
   \<and> app_gemini (app_keys_load
       (Inr \<lparr> groqApiKey = Some ''gsk_stored'', geminiApiKey = Some ''AIza_stored'' \<rparr>)
       app_keys_init) = ''AIza_stored''"
  by (simp add: app_keys_load_def app_keys_load_settled_def app_keys_load_request_def
      app_keys_init_def or_empty_def)

text \<open>
  The panel of part_002, saving with one field filled: the filled field's flag becomes
  true and the other flag keeps its value, the empty field is sent as \<open>undefined\<close>,
  and both buffers are emptied once \<open>keys_set\<close> has resolved.
\<close>

lemma save_groq_only:
  assumes "groq s \<noteq> []" and "gemini s = []"
  shows "save (Inr ()) s =
    (None, s\<lparr> hasGroq := True, groq := [], gemini := [],
       keys_calls := keys_calls s @ [KeysSet (KValue (groq s)) KUndefined,
         Alert ''Saved (stored values are hidden for security)''] \<rparr>)"
  using assms by (simp add: save_def or_undefined_def Let_def)

lemma save_gemini_only:
  assumes "groq s = []" and "gemini s \<noteq> []"
  shows "save (Inr ()) s =
    (None, s\<lparr> hasGemini := True, groq := [], gemini := [],
       keys_calls := keys_calls s @ [KeysSet KUndefined (KValue (gemini s)),
         Alert ''Saved (stored values are hidden for security)''] \<rparr>)"
  using assms by (simp add: save_def or_undefined_def Let_def)

text \<open>
  C8 fails on src/app/src/App.tsx. Its \<open>save\<close> sends the empty field as \<open>null\<close>,
  keeps no presence flag, and leaves the typed key in its buffer after \<open>keys_set\<close> has
  resolved.
\<close>

theorem app_save_keeps_buffers:
  "app_save (Inr ()) \<lparr> app_groq = ''gsk_new'', app_gemini = [], app_keys_calls = [] \<rparr> =
     (None, \<lparr> app_groq = ''gsk_new'', app_gemini = [],
        app_keys_calls = [KeysSet (KValue ''gsk_new'') KNull, Alert ''Saved keys locally''] \<rparr>)"
  by (simp add: app_save_def or_null_def Let_def)

text \<open>
  When nothing happens between the click and the answer of \<open>keys_set\<close>, the two parts
  of \<open>save\<close> make up \<open>save\<close>, and along a sequence of typing and such saves a flag that
  is set stays set.
\<close>

lemma save_uninterrupted:
  "save r s = (case save_click s of (c, s1) \<Rightarrow> save_resume r c s1)"
  by (cases r) (simp_all add: save_def save_click_def save_resume_def Let_def)

lemma keys_step_keeps_flags:
  "(hasGroq s \<longrightarrow> hasGroq (keys_step s ev)) \<and> (hasGemini s \<longrightarrow> hasGemini (keys_step s ev))"
  by (cases ev) (auto simp: setGroq_def setGemini_def save_def Let_def split: sum.splits)

lemma uninterrupted_saves_keep_flags:
  "(hasGroq s \<longrightarrow> hasGroq (keys_run evs s)) \<and> (hasGemini s \<longrightarrow> hasGemini (keys_run evs s))"
  unfolding keys_run_def
proof (induction evs arbitrary: s)
  case Nil
  show ?case by simp
next
  case (Cons ev evs)
  from keys_step_keeps_flags [of s ev] Cons.IH [of "keys_step s ev"]
  show ?case by auto
qed

text \<open>
  A \<open>save\<close> clicked before \<open>keys_get\<close> has answered writes the flags of its own render
  over the ones the load has set.
\<close>

lemma load_during_save_drops_flag:
  "hasGroq early_loaded \<and> \<not> hasGroq early_settled"
  by (simp add: early_settled_def early_loaded_def early_click_def save_click_def
      save_resume_def keys_load_settled_def keys_load_request_def setGemini_def keys_init_def
      prop_truthy_def)

text \<open>
  C9 fails on the code. With two overlapping saves, the first sets the Groq flag when
  its \<open>keys_set\<close> resolves; the second was clicked with an empty Groq field in a render
  where the flag was still false, and when its \<open>keys_set\<close> resolves it writes
  \<open>!!groq || hasGroq\<close> of that render: the flag goes from true to false, although both
  calls succeeded and the key was sent.
\<close>

theorem overlapping_saves_drop_flag:
  "hasGroq first_settled
   \<and> \<not> hasGroq second_settled
   \<and> hasGemini second_settled
   \<and> keys_calls second_settled =
       [KeysSet (KValue ''gsk_1'') KUndefined,
        KeysSet KUndefined (KValue ''AIza_1''),
        Alert ''Saved (stored values are hidden for security)'',
        Alert ''Saved (stored values are hidden for security)'']"
  by (simp add: second_settled_def first_settled_def second_click_def first_click_def
      save_click_def save_resume_def setGroq_def setGemini_def keys_init_def or_undefined_def)

section \<open>Properties of the service worker\<close>

text \<open>
  C10. For a request whose method is not GET the listener returns without calling
  \<open>respondWith\<close> and touches neither network nor cache. For a GET request it responds,
  asking the network first; the cache is consulted exactly when the network fetch
  throws; the response is the network's if there is one, otherwise the cached one, and
  with neither the promise is rejected with the error \<open>offline\<close>.
\<close>

theorem on_fetch_network_first:
  "(req_method req \<noteq> ''GET'' \<longrightarrow> on_fetch env req = (None, []))
   \<and> (req_method req = ''GET'' \<longrightarrow>
        fst (on_fetch env req) \<noteq> None
        \<and> hd (snd (on_fetch env req)) = Fetch req
        \<and> (CacheMatch req \<in> set (snd (on_fetch env req))) = isl (network env req)
        \<and> (\<forall>res. network env req = Inr res \<longrightarrow> fst (on_fetch env req) = Some (Inr res))
        \<and> (\<forall>e res. network env req = Inl e \<and> cache_storage env ''ptt-cache-v1'' req = Some res
              \<longrightarrow> fst (on_fetch env req) = Some (Inr res))
        \<and> (\<forall>e. network env req = Inl e \<and> cache_storage env ''ptt-cache-v1'' req = None
              \<longrightarrow> fst (on_fetch env req) = Some (Inl (Rejected ''offline''))))"
  by (auto simp: on_fetch_def sw_respond_def Let_def split: sum.splits option.splits)

theorem on_fetch_network_first_witness:
  "on_fetch ex_sw_env \<lparr> req_method = ''POST'', req_url = ''/live'' \<rparr> = (None, [])
   \<and> fst (on_fetch ex_sw_env \<lparr> req_method = ''GET'', req_url = ''/live'' \<rparr>)
       = Some (Inr \<lparr> resp_status = 200, resp_body = ''fresh'' \<rparr>)
   \<and> fst (on_fetch ex_sw_env \<lparr> req_method = ''GET'', req_url = ''/cached'' \<rparr>)
       = Some (Inr \<lparr> resp_status = 200, resp_body = ''stale'' \<rparr>)
   \<and> fst (on_fetch ex_sw_env \<lparr> req_method = ''GET'', req_url = ''/other'' \<rparr>)
       = Some (Inl (Rejected ''offline''))"
  using on_fetch_network_first [of "\<lparr> req_method = ''POST'', req_url = ''/live'' \<rparr>" ex_sw_env]
    on_fetch_network_first [of "\<lparr> req_method = ''GET'', req_url = ''/live'' \<rparr>" ex_sw_env]
    on_fetch_network_first [of "\<lparr> req_method = ''GET'', req_url = ''/cached'' \<rparr>" ex_sw_env]
    on_fetch_network_first [of "\<lparr> req_method = ''GET'', req_url = ''/other'' \<rparr>" ex_sw_env]
  by (simp add: ex_sw_env_def)

end
